theory Spec2Isabelle
  imports Main "HOL-Library.Sublist"
begin

section \<open>Himada: the limit enforcer and the fetch-and-export pipeline\<close>

text \<open>
  A shallow embedding of \<^verbatim>\<open>src/himada/app.py\<close>: the dataclass
  \<^verbatim>\<open>DownloadConfig\<close>, the function \<^verbatim>\<open>enforce_yahoo_limits\<close> and the
  function \<^verbatim>\<open>fetch_and_save_csv\<close>. The Qt window around them is not modelled.
\<close>

subsection \<open>Python strings\<close>

text \<open>
  A Python \<^verbatim>\<open>str\<close> is a sequence of Unicode code points, so it is modelled as a list
  of natural numbers. \<open>lit\<close> turns an ASCII literal of the source into such a list.
\<close>

type_synonym pystr = "nat list"

definition lit :: "string \<Rightarrow> pystr" where
  "lit cs = map of_char cs"

text \<open>
  \<^verbatim>\<open>str.isspace\<close> on one code point: the white space table of CPython
  (\<^verbatim>\<open>_PyUnicode_IsWhitespace\<close>).
\<close>

definition isspace :: "nat \<Rightarrow> bool" where
  "isspace c =
     (c \<in> {0x09, 0x0A, 0x0B, 0x0C, 0x0D, 0x1C, 0x1D, 0x1E, 0x1F, 0x20, 0x85, 0xA0, 0x1680,
            0x2000, 0x2001, 0x2002, 0x2003, 0x2004, 0x2005, 0x2006, 0x2007, 0x2008, 0x2009,
            0x200A, 0x2028, 0x2029, 0x202F, 0x205F, 0x3000})"

text \<open>\<^verbatim>\<open>s.strip()\<close>: white space removed at both ends.\<close>

definition strip :: "pystr \<Rightarrow> pystr" where
  "strip s = rev (dropWhile isspace (rev (dropWhile isspace s)))"

text \<open>\<^verbatim>\<open>s.replace('/', '_')\<close>: both arguments are one code point long.\<close>

definition replace_slash :: "pystr \<Rightarrow> pystr" where
  "replace_slash s = map (\<lambda>c. if c = 0x2F then 0x5F else c) s"

text \<open>
  How an f-string renders a field of type \<^verbatim>\<open>str | None\<close>: the string itself, or
  the four letters \<^verbatim>\<open>None\<close>.
\<close>

fun format_opt :: "pystr option \<Rightarrow> pystr" where
  "format_opt None = lit ''None''"
| "format_opt (Some s) = s"

text \<open>\<^verbatim>\<open>x or default\<close> on a \<^verbatim>\<open>str | None\<close>: \<^verbatim>\<open>None\<close> and the empty string are falsy.\<close>

fun or_default :: "pystr option \<Rightarrow> pystr \<Rightarrow> pystr" where
  "or_default None d = d"
| "or_default (Some s) d = (if s = [] then d else s)"

subsection \<open>The configuration\<close>

text \<open>
  The dataclass \<^verbatim>\<open>DownloadConfig\<close>. The field \<^verbatim>\<open>end\<close> is written \<open>end'\<close>; a
  \<^verbatim>\<open>Path\<close> is kept as the string it was built from.
\<close>

record download_config =
  tickers :: "pystr list"
  interval :: pystr
  include_actions :: bool
  auto_adjust :: bool
  out_dir :: pystr
  mode :: pystr
  start :: "pystr option"
  end' :: "pystr option"
  period :: "pystr option"

subsection \<open>The limit enforcer\<close>

definition intraday :: "pystr \<Rightarrow> bool" where
  "intraday interval' =
     (interval' \<in> {lit ''1m'', lit ''2m'', lit ''5m'', lit ''15m'', lit ''30m'', lit ''60m'',
                   lit ''90m'', lit ''1h''})"

definition longish :: "pystr option set" where
  "longish = {None, Some (lit ''max''), Some (lit ''ytd''), Some (lit ''10y''), Some (lit ''5y''),
              Some (lit ''2y''), Some (lit ''1y''), Some (lit ''6mo''), Some (lit ''3mo'')}"

definition warn_1m :: pystr where
  "warn_1m = [0x26A0, 0xFE0F] @ lit '' Interval=1m is limited by Yahoo; clamping period to 7d.''"

definition warn_intraday :: pystr where
  "warn_intraday =
     [0x26A0, 0xFE0F] @ lit '' Intraday intervals are limited by Yahoo; clamping period to 60d.''"

text \<open>
  \<^verbatim>\<open>enforce_yahoo_limits(interval, requested_mode, requested_period, log)\<close>. The
  callback \<open>log\<close> acts on a state \<open>'s\<close> of the caller's; the function returns the pair
  of the source together with the state the callback leaves.
\<close>

definition enforce_yahoo_limits ::
  "pystr \<Rightarrow> pystr \<Rightarrow> pystr option \<Rightarrow> (pystr \<Rightarrow> 's \<Rightarrow> 's) \<Rightarrow> 's \<Rightarrow> (pystr \<times> pystr option) \<times> 's"
where
  "enforce_yahoo_limits interval' requested_mode requested_period log s =
     (if \<not> intraday interval' then ((requested_mode, requested_period), s)
      else if requested_mode \<in> {lit ''max'', lit ''period''} \<and> requested_period \<in> longish then
        (if interval' = lit ''1m'' then ((lit ''period'', Some (lit ''7d'')), log warn_1m s)
         else ((lit ''period'', Some (lit ''60d'')), log warn_intraday s))
      else ((requested_mode, requested_period), s))"

subsection \<open>The outside world\<close>

text \<open>
  The pipeline talks to the file system, to the market-data client and to the data-frame
  library. Their code is not part of the repository, so they are parameters of the model.
  A state \<open>'w\<close> of the outside world is threaded through every call, so that two calls
  with the same arguments may end differently; \<open>'f\<close> is the type of data frames.

  A call of \<^verbatim>\<open>tk.history\<close>: with \<^verbatim>\<open>start\<close> and \<^verbatim>\<open>end\<close>, or with \<^verbatim>\<open>period\<close>.
  The arguments are the ticker, the dates or the period, \<^verbatim>\<open>interval\<close>, \<^verbatim>\<open>actions\<close>
  and \<^verbatim>\<open>auto_adjust\<close>.
\<close>

datatype request =
    HistoryRange pystr "pystr option" "pystr option" pystr bool bool
  | HistoryPeriod pystr pystr pystr bool bool

text \<open>
  How a call to the outside ends: it raises an instance of \<^verbatim>\<open>Exception\<close>, kept as
  the text \<^verbatim>\<open>str(e)\<close>, or it returns.
\<close>

datatype 'a outcome = Raises pystr | Returns 'a

record ('w, 'f) env =
  mkdir :: "pystr \<Rightarrow> 'w \<Rightarrow> unit outcome \<times> 'w"
  joinpath :: "pystr \<Rightarrow> pystr \<Rightarrow> pystr"
  history :: "request \<Rightarrow> 'w \<Rightarrow> 'f option outcome \<times> 'w"
  empty :: "'f \<Rightarrow> bool"
  csv_friendly :: "'f \<Rightarrow> 'f"
  to_csv :: "pystr \<Rightarrow> 'f \<Rightarrow> 'w \<Rightarrow> unit outcome \<times> 'w"

text \<open>
  \<open>mkdir\<close> is \<^verbatim>\<open>Path.mkdir(parents=True, exist_ok=True)\<close>, \<open>joinpath\<close> the operator
  \<^verbatim>\<open>/\<close> of \<^verbatim>\<open>Path\<close>, \<open>history\<close> the construction of \<^verbatim>\<open>yf.Ticker\<close> followed by
  \<^verbatim>\<open>tk.history\<close> (\<open>None\<close> for a result that is \<^verbatim>\<open>None\<close>), \<open>empty\<close> the attribute
  \<^verbatim>\<open>df.empty\<close>, \<open>csv_friendly\<close> lines 119 to 128 of the source (copy, index named
  \<^verbatim>\<open>Date\<close>, \<^verbatim>\<open>reset_index\<close>, time zone removed) and \<open>to_csv\<close> the call
  \<^verbatim>\<open>df.to_csv(out_file, index=False)\<close>.

  The calls made inside \<^verbatim>\<open>try\<close> (\<open>history\<close>, \<open>to_csv\<close>) and \<open>mkdir\<close> may raise;
  the calls on a frame outside \<^verbatim>\<open>try\<close> (\<open>empty\<close>, \<open>csv_friendly\<close>), the join of
  paths and the logging callback are taken to return.

  Everything the pipeline does to the outside is recorded, in order, in a trace.
\<close>

datatype 'f event = Log pystr | Mkdir pystr | History request | ToCsv pystr 'f

record ('w, 'f) state =
  trace :: "'f event list"
  world :: 'w

text \<open>The callback \<^verbatim>\<open>log\<close>: the line is appended to what the user sees.\<close>

definition log_line :: "pystr \<Rightarrow> ('w, 'f) state \<Rightarrow> ('w, 'f) state" where
  "log_line msg s = s\<lparr>trace := trace s @ [Log msg]\<rparr>"

text \<open>A call to the outside: the event is recorded and the world moves on.\<close>

definition perform ::
  "'f event \<Rightarrow> ('w \<Rightarrow> 'a outcome \<times> 'w) \<Rightarrow> ('w, 'f) state \<Rightarrow> 'a outcome \<times> ('w, 'f) state"
where
  "perform ev call s =
     (case call (world s) of (r, w) \<Rightarrow> (r, s\<lparr>trace := trace s @ [ev], world := w\<rparr>))"

subsection \<open>The fetch-and-export pipeline\<close>

text \<open>The lines the pipeline logs for one ticker (lines 76, 111, 115, 133 and 135).\<close>

definition msg_fetching :: "pystr \<Rightarrow> download_config \<Rightarrow> pystr" where
  "msg_fetching ticker cfg =
     lit ''Fetching: '' @ ticker @ lit '' | interval='' @ interval cfg @ lit '' | mode='' @ mode cfg"

definition msg_error_fetching :: "pystr \<Rightarrow> pystr \<Rightarrow> pystr" where
  "msg_error_fetching ticker e = [0x274C] @ lit '' Error fetching '' @ ticker @ lit '': '' @ e"

definition msg_no_data :: "pystr \<Rightarrow> pystr" where
  "msg_no_data ticker = [0x26A0, 0xFE0F] @ lit '' No data returned for '' @ ticker @ lit ''.''"

definition msg_saved :: "pystr \<Rightarrow> pystr" where
  "msg_saved out_file = [0x2705] @ lit '' Saved: '' @ out_file"

definition msg_error_saving :: "pystr \<Rightarrow> pystr \<Rightarrow> pystr" where
  "msg_error_saving ticker e = [0x274C] @ lit '' Error saving '' @ ticker @ lit '': '' @ e"

text \<open>
  Lines 81 to 108: the call made for a ticker and the \<^verbatim>\<open>file_tag\<close> that goes with it.
  The last branch is an \<^verbatim>\<open>else\<close>: it takes every mode that is neither \<^verbatim>\<open>range\<close>
  nor \<^verbatim>\<open>period\<close>.
\<close>

definition history_call :: "download_config \<Rightarrow> pystr \<Rightarrow> request \<times> pystr" where
  "history_call cfg ticker =
     (if mode cfg = lit ''range'' then
        (HistoryRange ticker (start cfg) (end' cfg) (interval cfg) (include_actions cfg)
           (auto_adjust cfg),
         format_opt (start cfg) @ lit ''_'' @ format_opt (end' cfg))
      else if mode cfg = lit ''period'' then
        (let period' = or_default (period cfg) (lit ''1mo'')
         in (HistoryPeriod ticker period' (interval cfg) (include_actions cfg) (auto_adjust cfg),
             period'))
      else
        (HistoryPeriod ticker (lit ''max'') (interval cfg) (include_actions cfg) (auto_adjust cfg),
         lit ''max''))"

text \<open>Line 130: the name of the file, to be joined to \<^verbatim>\<open>out_dir\<close>.\<close>

definition file_name :: "pystr \<Rightarrow> pystr \<Rightarrow> pystr \<Rightarrow> pystr" where
  "file_name ticker interval' file_tag =
     replace_slash ticker @ lit ''_'' @ interval' @ lit ''_'' @ file_tag @ lit ''.csv''"

text \<open>Lines 118 to 135: a frame with rows is made CSV-friendly and written.\<close>

definition save_csv ::
  "('w, 'f) env \<Rightarrow> download_config \<Rightarrow> pystr \<Rightarrow> pystr \<Rightarrow> 'f \<Rightarrow> ('w, 'f) state \<Rightarrow> ('w, 'f) state"
where
  "save_csv e cfg ticker file_tag df s =
     (let df' = csv_friendly e df;
          out_file = joinpath e (out_dir cfg) (file_name ticker (interval cfg) file_tag)
      in case perform (ToCsv out_file df') (to_csv e out_file df') s of
           (Returns _, s') \<Rightarrow> log_line (msg_saved out_file) s'
         | (Raises x, s') \<Rightarrow> log_line (msg_error_saving ticker x) s')"

text \<open>The body of the loop over \<^verbatim>\<open>cfg.tickers\<close> (lines 72 to 135).\<close>

definition process_ticker ::
  "('w, 'f) env \<Rightarrow> download_config \<Rightarrow> pystr \<Rightarrow> ('w, 'f) state \<Rightarrow> ('w, 'f) state"
where
  "process_ticker e cfg t s =
     (let ticker = strip t in
      if ticker = [] then s
      else
        (let s1 = log_line (msg_fetching ticker cfg) s;
             (req, file_tag) = history_call cfg ticker
         in case perform (History req) (history e req) s1 of
              (Raises x, s2) \<Rightarrow> log_line (msg_error_fetching ticker x) s2
            | (Returns None, s2) \<Rightarrow> log_line (msg_no_data ticker) s2
            | (Returns (Some df), s2) \<Rightarrow>
                if empty e df then log_line (msg_no_data ticker) s2
                else save_csv e cfg ticker file_tag df s2))"

text \<open>The loop \<^verbatim>\<open>for t in cfg.tickers\<close>.\<close>

primrec for_tickers ::
  "('w, 'f) env \<Rightarrow> download_config \<Rightarrow> pystr list \<Rightarrow> ('w, 'f) state \<Rightarrow> ('w, 'f) state"
where
  "for_tickers e cfg [] s = s"
| "for_tickers e cfg (t # ts) s = for_tickers e cfg ts (process_ticker e cfg t s)"

text \<open>
  \<^verbatim>\<open>fetch_and_save_csv(cfg, log)\<close>. The source mutates \<^verbatim>\<open>cfg\<close> and returns
  \<^verbatim>\<open>None\<close>; the model returns how the call ended, the configuration as the call
  leaves it, and the state. An exception of \<^verbatim>\<open>mkdir\<close> is not caught: it ends the call
  before the configuration is touched.
\<close>

definition fetch_and_save_csv ::
  "('w, 'f) env \<Rightarrow> download_config \<Rightarrow> ('w, 'f) state \<Rightarrow>
     unit outcome \<times> download_config \<times> ('w, 'f) state"
where
  "fetch_and_save_csv e cfg s =
     (case perform (Mkdir (out_dir cfg)) (mkdir e (out_dir cfg)) s of
        (Raises x, s0) \<Rightarrow> (Raises x, cfg, s0)
      | (Returns _, s0) \<Rightarrow>
          (case enforce_yahoo_limits (interval cfg) (mode cfg) (period cfg) log_line s0 of
             ((mode', period'), s1) \<Rightarrow>
               (let cfg' = cfg\<lparr>mode := mode', period := period'\<rparr>
                in (Returns (), cfg', for_tickers e cfg' (tickers cfg') s1))))"

subsection \<open>A small outside world\<close>

text \<open>
  An outside world to run the model on: the world is a counter of the calls made, a frame
  is its number of rows. Asked for a period, the client knows no ticker \<^verbatim>\<open>BAD\<close>
  and has no rows for \<^verbatim>\<open>NEW\<close>, and the frame of \<^verbatim>\<open>FULL\<close> cannot be written; asked
  for a range of dates, it always has rows.
\<close>

definition demo_env :: "(nat, nat) env" where
  "demo_env =
     \<lparr>mkdir = (\<lambda>d w. (Returns (), Suc w)),
      joinpath = (\<lambda>d n. d @ [0x2F] @ n),
      history = (\<lambda>req w.
        (case req of
           HistoryRange tk a b i ac ad \<Rightarrow> Returns (Some 5)
         | HistoryPeriod tk p i ac ad \<Rightarrow>
             if tk = lit ''BAD'' then Raises (lit ''no such ticker'')
             else if tk = lit ''NEW'' then Returns (Some 0)
             else if tk = lit ''FULL'' then Returns (Some 7)
             else Returns (Some 5),
         Suc w)),
      empty = (\<lambda>df. df = 0),
      csv_friendly = (\<lambda>df. df),
      to_csv = (\<lambda>f df w. (if df = 7 then Raises (lit ''disk full'') else Returns (), Suc w))\<rparr>"

definition demo_cfg :: download_config where
  "demo_cfg =
     \<lparr>tickers = [lit ''BBCA.JK'', lit '' '', lit ''BAD'', lit ''BRK/B''],
      interval = lit ''1d'', include_actions = False, auto_adjust = True,
      out_dir = lit ''csv'', mode = lit ''max'', start = None, end' = None, period = None\<rparr>"

definition demo_state :: "(nat, nat) state" where
  "demo_state = \<lparr>trace = [], world = 0\<rparr>"

subsection \<open>Facts on strings\<close>

lemma lit_eq_iff [simp]: "lit a = lit b \<longleftrightarrow> a = b"
  unfolding lit_def by (simp add: inj_of_char)

lemma lit_eq_Nil [simp]: "lit a = [] \<longleftrightarrow> a = []"
  by (simp add: lit_def)

text \<open>A string is empty after \<open>strip\<close> exactly when all its code points are white space.\<close>

lemma strip_empty_iff: "strip t = [] \<longleftrightarrow> list_all isspace t"
proof
  assume "strip t = []"
  then have all: "\<forall>c \<in> set (dropWhile isspace t). isspace c"
    by (simp add: strip_def)
  have "dropWhile isspace t = []"
  proof (rule ccontr)
    assume ne: "dropWhile isspace t \<noteq> []"
    then have "\<not> isspace (hd (dropWhile isspace t))" by (rule hd_dropWhile)
    moreover from ne have "hd (dropWhile isspace t) \<in> set (dropWhile isspace t)" by simp
    ultimately show False using all by blast
  qed
  then show "list_all isspace t" by (simp add: list_all_iff)
next
  assume "list_all isspace t"
  then have d: "dropWhile isspace t = []" by (simp add: list_all_iff)
  show "strip t = []" unfolding strip_def d by simp
qed




lemma sublist_error_fetching:
  "sublist tk ([0x274C] @ lit '' Error fetching '' @ tk @ lit '': '' @ x)"
  by (metis append.assoc sublist_appendI)

lemma sublist_error_saving:
  "sublist tk ([0x274C] @ lit '' Error saving '' @ tk @ lit '': '' @ x)"
  by (metis append.assoc sublist_appendI)

subsection \<open>Facts on the limit enforcer\<close>

lemma fst_enforce_yahoo_limits:
  "fst (enforce_yahoo_limits i m p log s) = fst (enforce_yahoo_limits i m p log' s')"
  by (simp add: enforce_yahoo_limits_def)

lemma snd_enforce_yahoo_limits:
  "snd (enforce_yahoo_limits i m p log_line s) = s \<or>
   snd (enforce_yahoo_limits i m p log_line s) = s\<lparr>trace := trace s @ [Log warn_1m]\<rparr> \<or>
   snd (enforce_yahoo_limits i m p log_line s) = s\<lparr>trace := trace s @ [Log warn_intraday]\<rparr>"
  by (simp add: enforce_yahoo_limits_def log_line_def)

subsection \<open>The loop body, case by case\<close>

lemma for_tickers_append:
  "for_tickers e cfg (xs @ ys) s = for_tickers e cfg ys (for_tickers e cfg xs s)"
  by (induction xs arbitrary: s) simp_all

lemma process_ticker_blank: "strip t = [] \<Longrightarrow> process_ticker e cfg t s = s"
  by (simp add: process_ticker_def)

lemma process_ticker_raises:
  assumes "strip t \<noteq> []"
    and "history_call cfg (strip t) = (req, tag)"
    and "history e req (world s) = (Raises x, w)"
  shows "process_ticker e cfg t s =
           s\<lparr>trace := trace s @ [Log (msg_fetching (strip t) cfg), History req,
                                   Log (msg_error_fetching (strip t) x)],
             world := w\<rparr>"
  using assms by (simp add: process_ticker_def perform_def log_line_def Let_def)

lemma process_ticker_none:
  assumes "strip t \<noteq> []"
    and "history_call cfg (strip t) = (req, tag)"
    and "history e req (world s) = (Returns None, w)"
  shows "process_ticker e cfg t s =
           s\<lparr>trace := trace s @ [Log (msg_fetching (strip t) cfg), History req,
                                   Log (msg_no_data (strip t))],
             world := w\<rparr>"
  using assms by (simp add: process_ticker_def perform_def log_line_def Let_def)

lemma process_ticker_empty:
  assumes "strip t \<noteq> []"
    and "history_call cfg (strip t) = (req, tag)"
    and "history e req (world s) = (Returns (Some df), w)"
    and "empty e df"
  shows "process_ticker e cfg t s =
           s\<lparr>trace := trace s @ [Log (msg_fetching (strip t) cfg), History req,
                                   Log (msg_no_data (strip t))],
             world := w\<rparr>"
  using assms by (simp add: process_ticker_def perform_def log_line_def Let_def)

lemma process_ticker_write:
  assumes "strip t \<noteq> []"
    and "history_call cfg (strip t) = (req, tag)"
    and "history e req (world s) = (Returns (Some df), w)"
    and "\<not> empty e df"
    and "out_file = joinpath e (out_dir cfg) (file_name (strip t) (interval cfg) tag)"
    and "to_csv e out_file (csv_friendly e df) w = (r, w')"
  shows "process_ticker e cfg t s =
           s\<lparr>trace := trace s @ [Log (msg_fetching (strip t) cfg), History req,
                                   ToCsv out_file (csv_friendly e df),
                                   Log (case r of Returns _ \<Rightarrow> msg_saved out_file
                                        | Raises x \<Rightarrow> msg_error_saving (strip t) x)],
             world := w'\<rparr>"
  using assms
  by (cases r) (simp_all add: process_ticker_def save_csv_def perform_def log_line_def Let_def)

lemma history_call_period_default:
  assumes "mode cfg = lit ''period''" and "period cfg = None \<or> period cfg = Some []"
  shows "history_call cfg ticker =
           (HistoryPeriod ticker (lit ''1mo'') (interval cfg) (include_actions cfg)
              (auto_adjust cfg), lit ''1mo'')"
  using assms by (auto simp add: history_call_def Let_def)


subsection \<open>A run on the small outside world\<close>

lemmas demo = demo_env_def demo_cfg_def demo_state_def strip_def isspace_def lit_def history_call_def

lemma strip_lit_demo:
  "strip (lit ''BBCA.JK'') = lit ''BBCA.JK''" "strip (lit '' '') = []"
  "strip (lit ''BAD'') = lit ''BAD''" "strip (lit ''BRK/B'') = lit ''BRK/B''"
  by (simp_all add: strip_def isspace_def lit_def)

text \<open>
  The whole pipeline on four entries: a ticker that is saved, a blank entry, a ticker the
  client rejects and a ticker with a slash.
\<close>

lemma demo_run:
  "fetch_and_save_csv demo_env demo_cfg demo_state =
     (Returns (), demo_cfg,
      \<lparr>trace =
         [Mkdir (lit ''csv''),
          Log (msg_fetching (lit ''BBCA.JK'') demo_cfg),
          History (HistoryPeriod (lit ''BBCA.JK'') (lit ''max'') (lit ''1d'') False True),
          ToCsv (lit ''csv/BBCA.JK_1d_max.csv'') 5,
          Log (msg_saved (lit ''csv/BBCA.JK_1d_max.csv'')),
          Log (msg_fetching (lit ''BAD'') demo_cfg),
          History (HistoryPeriod (lit ''BAD'') (lit ''max'') (lit ''1d'') False True),
          Log (msg_error_fetching (lit ''BAD'') (lit ''no such ticker'')),
          Log (msg_fetching (lit ''BRK/B'') demo_cfg),
          History (HistoryPeriod (lit ''BRK/B'') (lit ''max'') (lit ''1d'') False True),
          ToCsv (lit ''csv/BRK_B_1d_max.csv'') 5,
          Log (msg_saved (lit ''csv/BRK_B_1d_max.csv''))],
       world = 6\<rparr>)"
proof -
  have cfg: "demo_cfg\<lparr>mode := lit ''max'', period := None\<rparr> = demo_cfg"
    by (simp add: demo_cfg_def)
  have n: "file_name (lit ''BBCA.JK'') (lit ''1d'') (lit ''max'') = lit ''BBCA.JK_1d_max.csv''"
    "file_name (lit ''BRK/B'') (lit ''1d'') (lit ''max'') = lit ''BRK_B_1d_max.csv''"
    by (simp_all add: file_name_def replace_slash_def lit_def)
  have j: "joinpath demo_env (lit ''csv'') (lit ''BBCA.JK_1d_max.csv'') = lit ''csv/BBCA.JK_1d_max.csv''"
    "joinpath demo_env (lit ''csv'') (lit ''BRK_B_1d_max.csv'') = lit ''csv/BRK_B_1d_max.csv''"
    by (simp_all add: demo_env_def lit_def)
  have sel: "tickers demo_cfg = [lit ''BBCA.JK'', lit '' '', lit ''BAD'', lit ''BRK/B'']"
    "interval demo_cfg = lit ''1d''" "mode demo_cfg = lit ''max''" "period demo_cfg = None"
    "out_dir demo_cfg = lit ''csv''" "include_actions demo_cfg = False" "auto_adjust demo_cfg = True"
    by (simp_all add: demo_cfg_def)
  have h: "history demo_env (HistoryPeriod tk p i a b) w =
      (if tk = lit ''BAD'' then Raises (lit ''no such ticker'')
       else if tk = lit ''NEW'' then Returns (Some 0)
       else if tk = lit ''FULL'' then Returns (Some 7) else Returns (Some 5), Suc w)" for tk p i a b w
    by (simp add: demo_env_def)
  have o: "mkdir demo_env d w = (Returns (), Suc w)" "empty demo_env df = (df = 0)"
    "csv_friendly demo_env df = df"
    "to_csv demo_env f df w = (if df = 7 then Raises (lit ''disk full'') else Returns (), Suc w)"
    for d w df f
    by (simp_all add: demo_env_def)
  have i: "\<not> intraday (lit ''1d'')" by (simp add: intraday_def)
  show ?thesis
    by (simp add: fetch_and_save_csv_def perform_def enforce_yahoo_limits_def i sel cfg
        process_ticker_def save_csv_def strip_lit_demo history_call_def h o n j log_line_def
        demo_state_def Let_def)
qed

subsection \<open>The limit enforcer: clamping\<close>

text \<open>
  C1. For an intraday interval, a requested mode \<^verbatim>\<open>period\<close> or \<^verbatim>\<open>max\<close> and a
  requested period of the long set, the enforcer returns the mode \<^verbatim>\<open>period\<close> with
  the period \<^verbatim>\<open>7d\<close> when the interval is \<^verbatim>\<open>1m\<close> and \<^verbatim>\<open>60d\<close> otherwise, and
  the logging callback is called exactly once, with the warning of that case.
\<close>

theorem enforce_clamps:
  assumes "intraday i"
    and "m = lit ''period'' \<or> m = lit ''max''"
    and "p \<in> longish"
  shows "enforce_yahoo_limits i m p log s =
           (if i = lit ''1m'' then ((lit ''period'', Some (lit ''7d'')), log warn_1m s)
            else ((lit ''period'', Some (lit ''60d'')), log warn_intraday s))"
  using assms unfolding enforce_yahoo_limits_def by auto

theorem enforce_clamps_witness:
  "intraday (lit ''1m'') \<and> (lit ''max'' = lit ''period'' \<or> lit ''max'' = lit ''max'') \<and>
   None \<in> longish \<and>
   enforce_yahoo_limits (lit ''1m'') (lit ''max'') None (\<lambda>l ls. ls @ [l]) [] =
     ((lit ''period'', Some (lit ''7d'')), [warn_1m]) \<and>
   intraday (lit ''1h'') \<and> (lit ''period'' = lit ''period'' \<or> lit ''period'' = lit ''max'') \<and>
   Some (lit ''1y'') \<in> longish \<and>
   enforce_yahoo_limits (lit ''1h'') (lit ''period'') (Some (lit ''1y'')) (\<lambda>l ls. ls @ [l]) [] =
     ((lit ''period'', Some (lit ''60d'')), [warn_intraday])"
  using enforce_clamps [of "lit ''1m''" "lit ''max''" None "\<lambda>l ls. ls @ [l]" "[]"]
    enforce_clamps [of "lit ''1h''" "lit ''period''" "Some (lit ''1y'')" "\<lambda>l ls. ls @ [l]" "[]"]
  by (simp add: intraday_def longish_def)

subsection \<open>The limit enforcer: what it leaves alone\<close>

text \<open>
  C2. For an interval that is not intraday, the enforcer returns the requested mode and
  period as they are, whatever they are, and the logging callback is not called: the state
  of the callback is the one it was given.
\<close>

theorem enforce_not_intraday:
  "\<not> intraday i \<Longrightarrow> enforce_yahoo_limits i m p log s = ((m, p), s)"
  by (simp add: enforce_yahoo_limits_def)

theorem enforce_not_intraday_witness:
  "\<not> intraday (lit ''1d'') \<and>
   enforce_yahoo_limits (lit ''1d'') (lit ''max'') None (\<lambda>l ls. ls @ [l]) [] =
     ((lit ''max'', None), [])"
  using enforce_not_intraday [of "lit ''1d''" "lit ''max''" None "\<lambda>l ls. ls @ [l]" "[]"]
  by (simp add: intraday_def)

text \<open>
  C3. For an intraday interval and the requested mode \<^verbatim>\<open>range\<close>, the enforcer returns
  the requested mode and period as they are, whatever the period is; nothing is logged.
\<close>

theorem enforce_range:
  "intraday i \<Longrightarrow> enforce_yahoo_limits i (lit ''range'') p log s = ((lit ''range'', p), s)"
  by (simp add: enforce_yahoo_limits_def)

theorem enforce_range_witness:
  "intraday (lit ''1m'') \<and>
   enforce_yahoo_limits (lit ''1m'') (lit ''range'') (Some (lit ''max'')) (\<lambda>l ls. ls @ [l]) [] =
     ((lit ''range'', Some (lit ''max'')), [])"
  using enforce_range [of "lit ''1m''" "Some (lit ''max'')" "\<lambda>l ls. ls @ [l]" "[]"]
  by (simp add: intraday_def)

text \<open>
  C10. The enforcer is idempotent: given its own result, with the same interval, it returns
  that result again and does not call the logging callback. The two periods it clamps to
  are outside the long set.
\<close>

theorem enforce_idempotent:
  "(let r = enforce_yahoo_limits i m p log s
    in enforce_yahoo_limits i (fst (fst r)) (snd (fst r)) log (snd r) = r) \<and>
   Some (lit ''7d'') \<notin> longish \<and> Some (lit ''60d'') \<notin> longish"
  by (simp add: enforce_yahoo_limits_def longish_def Let_def)

subsection \<open>The pipeline: one ticker never aborts the batch\<close>

text \<open>
  The properties of the pipeline are stated on its loop \<open>for_tickers\<close>, which
  \<open>fetch_and_save_csv\<close> runs over \<^verbatim>\<open>cfg.tickers\<close> with the clamped configuration.
  The list is split at the entry \<open>t\<close> under study, and \<open>st\<close> is the state in which
  the loop reaches it.

  C4. When the fetch for a ticker raises, the exception is caught: after the line that
  announces the fetch and the call itself, the trace gains one error line, no file is
  written, and the loop goes on with the entries after it. When the fetch gives a frame
  with rows and writing it raises, the exception is caught as well: the trace gains one
  error line, and the loop goes on. Either error line is spelled out: a cross mark,
  \<^verbatim>\<open>Error fetching\<close> or \<^verbatim>\<open>Error saving\<close>, the trimmed ticker, a colon and the
  text of the exception; so the trimmed ticker is a part of the line.

  \<open>Raises\<close> stands for an instance of \<^verbatim>\<open>Exception\<close>, which is what
  \<^verbatim>\<open>except Exception\<close> catches. A \<^verbatim>\<open>KeyboardInterrupt\<close> or a \<^verbatim>\<open>SystemExit\<close> is
  not one: it is not caught and ends the run, and the model does not cover it.
\<close>

theorem ticker_error_does_not_abort:
  assumes nonblank: "strip t \<noteq> []"
    and call: "history_call cfg (strip t) = (req, tag)"
    and reach: "for_tickers e cfg before s = st"
  shows "(history e req (world st) = (Raises x, w) \<longrightarrow>
            for_tickers e cfg (before @ t # after) s =
              for_tickers e cfg after
                (st\<lparr>trace := trace st @ [Log (msg_fetching (strip t) cfg), History req,
                                           Log ([0x274C] @ lit '' Error fetching '' @ strip t @ lit '': '' @ x)],
                    world := w\<rparr>)) \<and>
         (history e req (world st) = (Returns (Some df), w) \<and> \<not> empty e df \<and>
          out_file = joinpath e (out_dir cfg) (file_name (strip t) (interval cfg) tag) \<and>
          to_csv e out_file (csv_friendly e df) w = (Raises x, w') \<longrightarrow>
            for_tickers e cfg (before @ t # after) s =
              for_tickers e cfg after
                (st\<lparr>trace := trace st @ [Log (msg_fetching (strip t) cfg), History req,
                                           ToCsv out_file (csv_friendly e df),
                                           Log ([0x274C] @ lit '' Error saving '' @ strip t @ lit '': '' @ x)],
                    world := w'\<rparr>)) \<and>
         sublist (strip t) ([0x274C] @ lit '' Error fetching '' @ strip t @ lit '': '' @ x) \<and>
         sublist (strip t) ([0x274C] @ lit '' Error saving '' @ strip t @ lit '': '' @ x)"
proof -
  have step: "for_tickers e cfg (before @ t # after) s =
                for_tickers e cfg after (process_ticker e cfg t st)"
    by (simp add: for_tickers_append reach)
  have "for_tickers e cfg (before @ t # after) s =
      for_tickers e cfg after
        (st\<lparr>trace := trace st @ [Log (msg_fetching (strip t) cfg), History req,
                                   Log ([0x274C] @ lit '' Error fetching '' @ strip t @ lit '': '' @ x)],
            world := w\<rparr>)"
    if "history e req (world st) = (Raises x, w)"
    unfolding step process_ticker_raises [OF nonblank call that] msg_error_fetching_def ..
  moreover have "for_tickers e cfg (before @ t # after) s =
      for_tickers e cfg after
        (st\<lparr>trace := trace st @ [Log (msg_fetching (strip t) cfg), History req,
                                   ToCsv out_file (csv_friendly e df),
                                   Log ([0x274C] @ lit '' Error saving '' @ strip t @ lit '': '' @ x)],
            world := w'\<rparr>)"
    if f: "history e req (world st) = (Returns (Some df), w)" and ne: "\<not> empty e df"
      and o: "out_file = joinpath e (out_dir cfg) (file_name (strip t) (interval cfg) tag)"
      and c: "to_csv e out_file (csv_friendly e df) w = (Raises x, w')"
    unfolding step using process_ticker_write [OF nonblank call f ne o c]
    by (simp add: msg_error_saving_def)
  ultimately show ?thesis using sublist_error_fetching sublist_error_saving by blast
qed

theorem ticker_error_does_not_abort_witness:
  "strip (lit ''BAD'') \<noteq> [] \<and>
   history_call demo_cfg (strip (lit ''BAD'')) =
     (HistoryPeriod (lit ''BAD'') (lit ''max'') (lit ''1d'') False True, lit ''max'') \<and>
   for_tickers demo_env demo_cfg [] demo_state = demo_state \<and>
   history demo_env (HistoryPeriod (lit ''BAD'') (lit ''max'') (lit ''1d'') False True)
     (world demo_state) = (Raises (lit ''no such ticker''), 1) \<and>
   for_tickers demo_env demo_cfg ([] @ lit ''BAD'' # [lit ''BRK/B'']) demo_state =
     for_tickers demo_env demo_cfg [lit ''BRK/B'']
       (demo_state\<lparr>trace := trace demo_state @
            [Log (msg_fetching (strip (lit ''BAD'')) demo_cfg),
             History (HistoryPeriod (lit ''BAD'') (lit ''max'') (lit ''1d'') False True),
             Log ([0x274C] @ lit '' Error fetching '' @ strip (lit ''BAD'') @ lit '': '' @ lit ''no such ticker'')],
          world := 1\<rparr>) \<and>
   strip (lit ''FULL'') \<noteq> [] \<and>
   history_call demo_cfg (strip (lit ''FULL'')) =
     (HistoryPeriod (lit ''FULL'') (lit ''max'') (lit ''1d'') False True, lit ''max'') \<and>
   history demo_env (HistoryPeriod (lit ''FULL'') (lit ''max'') (lit ''1d'') False True)
     (world demo_state) = (Returns (Some 7), 1) \<and>
   \<not> empty demo_env 7 \<and>
   to_csv demo_env
     (joinpath demo_env (out_dir demo_cfg) (file_name (strip (lit ''FULL'')) (interval demo_cfg) (lit ''max'')))
     (csv_friendly demo_env 7) 1 = (Raises (lit ''disk full''), 2) \<and>
   for_tickers demo_env demo_cfg ([] @ lit ''FULL'' # [lit ''BRK/B'']) demo_state =
     for_tickers demo_env demo_cfg [lit ''BRK/B'']
       (demo_state\<lparr>trace := trace demo_state @
            [Log (msg_fetching (strip (lit ''FULL'')) demo_cfg),
             History (HistoryPeriod (lit ''FULL'') (lit ''max'') (lit ''1d'') False True),
             ToCsv (joinpath demo_env (out_dir demo_cfg)
                      (file_name (strip (lit ''FULL'')) (interval demo_cfg) (lit ''max'')))
               (csv_friendly demo_env 7),
             Log ([0x274C] @ lit '' Error saving '' @ strip (lit ''FULL'') @ lit '': '' @ lit ''disk full'')],
          world := 2\<rparr>)"
proof -
  have b1: "strip (lit ''BAD'') \<noteq> []" by (simp add: demo)
  have b2: "history_call demo_cfg (strip (lit ''BAD'')) =
     (HistoryPeriod (lit ''BAD'') (lit ''max'') (lit ''1d'') False True, lit ''max'')"
    by (simp add: demo)
  have b3: "for_tickers demo_env demo_cfg [] demo_state = demo_state" by simp
  have b4: "history demo_env (HistoryPeriod (lit ''BAD'') (lit ''max'') (lit ''1d'') False True)
     (world demo_state) = (Raises (lit ''no such ticker''), 1)"
    by (simp add: demo_env_def demo_state_def)
  have f1: "strip (lit ''FULL'') \<noteq> []" by (simp add: demo)
  have f2: "history_call demo_cfg (strip (lit ''FULL'')) =
     (HistoryPeriod (lit ''FULL'') (lit ''max'') (lit ''1d'') False True, lit ''max'')"
    by (simp add: demo)
  have f4: "history demo_env (HistoryPeriod (lit ''FULL'') (lit ''max'') (lit ''1d'') False True)
     (world demo_state) = (Returns (Some 7), 1)"
    by (simp add: demo_env_def demo_state_def)
  have f5: "\<not> empty demo_env 7" by (simp add: demo_env_def)
  have f6: "to_csv demo_env
     (joinpath demo_env (out_dir demo_cfg) (file_name (strip (lit ''FULL'')) (interval demo_cfg) (lit ''max'')))
     (csv_friendly demo_env 7) 1 = (Raises (lit ''disk full''), 2)"
    by (simp add: demo_env_def)
  note fetch = ticker_error_does_not_abort [OF b1 b2 b3, THEN conjunct1, rule_format, OF b4]
  note wr = ticker_error_does_not_abort [OF f1 f2 b3, THEN conjunct2, THEN conjunct1, rule_format, OF conjI [OF f4 conjI [OF f5 conjI [OF refl f6]]]]
  show ?thesis
    by (intro conjI b1 b2 b3 b4 f1 f2 f4 f5 f6 fetch wr)
qed



subsection \<open>The pipeline: blank entries\<close>

text \<open>
  C7. An entry of the ticker list that is empty or made of white space only is empty after
  trimming, and the loop body leaves the state as it is for it: no fetch, no file, no
  line logged. The loop over a list with such an entry ends as the loop over the list
  without it.
\<close>

theorem blank_entry_is_skipped:
  assumes "list_all isspace t"
  shows "strip t = [] \<and> process_ticker e cfg t s = s \<and>
         for_tickers e cfg (before @ t # after) s = for_tickers e cfg (before @ after) s"
proof -
  from assms have b: "strip t = []" by (simp add: strip_empty_iff)
  then have "process_ticker e cfg t s' = s'" for s' :: "('a, 'b) state"
    by (rule process_ticker_blank)
  with b show ?thesis by (simp add: for_tickers_append)
qed

theorem blank_entry_is_skipped_witness:
  "list_all isspace (lit '' '') \<and> list_all isspace [] \<and> list_all isspace [0x20, 0x09, 0xA0, 0x3000] \<and>
   strip (lit '' '') = [] \<and>
   process_ticker demo_env demo_cfg (lit '' '') demo_state = demo_state \<and>
   for_tickers demo_env demo_cfg ([lit ''BBCA.JK''] @ lit '' '' # [lit ''BAD'']) demo_state =
     for_tickers demo_env demo_cfg ([lit ''BBCA.JK''] @ [lit ''BAD'']) demo_state"
proof -
  have h: "list_all isspace (lit '' '')" by (simp add: lit_def isspace_def)
  have h': "list_all isspace []" "list_all isspace [0x20, 0x09, 0xA0, 0x3000]"
    by (simp_all add: isspace_def)
  from blank_entry_is_skipped [OF h, of demo_env demo_cfg demo_state "[lit ''BBCA.JK'']" "[lit ''BAD'']"]
  show ?thesis using h h' by blast
qed

subsection \<open>The pipeline: the file of a ticker\<close>



subsection \<open>The pipeline: what a run does to the configuration\<close>

text \<open>
  C8. A run leaves every field of the configuration other than \<^verbatim>\<open>mode\<close> and
  \<^verbatim>\<open>period\<close> as it was. When \<^verbatim>\<open>mkdir\<close> raises, the configuration is untouched.
  Otherwise \<^verbatim>\<open>mode\<close> and \<^verbatim>\<open>period\<close> are set to the pair the limit enforcer
  returns, and this happens before any fetch: the loop starts from a state whose trace holds
  the call of \<^verbatim>\<open>mkdir\<close> and at most one clamp warning, and it runs over the tickers
  with the configuration that the run returns.
\<close>

theorem run_changes_only_mode_and_period:
  "case fetch_and_save_csv e cfg s of
     (r, cfg', s') \<Rightarrow>
       tickers cfg' = tickers cfg \<and> interval cfg' = interval cfg \<and>
       include_actions cfg' = include_actions cfg \<and> auto_adjust cfg' = auto_adjust cfg \<and>
       out_dir cfg' = out_dir cfg \<and> start cfg' = start cfg \<and> end' cfg' = end' cfg \<and>
       (case r of
          Raises x \<Rightarrow> cfg' = cfg
        | Returns u \<Rightarrow>
            (mode cfg', period cfg') =
              fst (enforce_yahoo_limits (interval cfg) (mode cfg) (period cfg) log_line s) \<and>
            (\<exists>s1 clamp. s' = for_tickers e cfg' (tickers cfg) s1 \<and>
               trace s1 = trace s @ Mkdir (out_dir cfg) # clamp \<and>
               clamp \<in> {[], [Log warn_1m], [Log warn_intraday]}))"
proof (cases "mkdir e (out_dir cfg) (world s)")
  case (Pair r w)
  show ?thesis
  proof (cases r)
    case (Raises x)
    with Pair show ?thesis by (simp add: fetch_and_save_csv_def perform_def)
  next
    case (Returns u)
    define s0 where "s0 = s\<lparr>trace := trace s @ [Mkdir (out_dir cfg)], world := w\<rparr>"
    define res where
      "res = enforce_yahoo_limits (interval cfg) (mode cfg) (period cfg) log_line s0"
    define cfg' where "cfg' = cfg\<lparr>mode := fst (fst res), period := snd (fst res)\<rparr>"
    have run: "fetch_and_save_csv e cfg s =
        (Returns (), cfg', for_tickers e cfg' (tickers cfg) (snd res))"
      using Pair Returns
      by (simp add: fetch_and_save_csv_def perform_def s0_def res_def cfg'_def Let_def
          split: prod.split)
    have pair: "(mode cfg', period cfg') =
        fst (enforce_yahoo_limits (interval cfg) (mode cfg) (period cfg) log_line s)"
      unfolding cfg'_def res_def
      using fst_enforce_yahoo_limits [of "interval cfg" "mode cfg" "period cfg" log_line s0
          log_line s]
      by simp
    have "\<exists>clamp. trace (snd res) = trace s @ Mkdir (out_dir cfg) # clamp \<and>
            clamp \<in> {[], [Log warn_1m], [Log warn_intraday]}"
      using snd_enforce_yahoo_limits [of "interval cfg" "mode cfg" "period cfg" s0]
      unfolding res_def [symmetric]
    proof (elim disjE)
      assume "snd res = s0"
      then have "trace (snd res) = trace s @ Mkdir (out_dir cfg) # []" by (simp add: s0_def)
      then show ?thesis by blast
    next
      assume "snd res = s0\<lparr>trace := trace s0 @ [Log warn_1m]\<rparr>"
      then have "trace (snd res) = trace s @ Mkdir (out_dir cfg) # [Log warn_1m]"
        by (simp add: s0_def)
      then show ?thesis by blast
    next
      assume "snd res = s0\<lparr>trace := trace s0 @ [Log warn_intraday]\<rparr>"
      then have "trace (snd res) = trace s @ Mkdir (out_dir cfg) # [Log warn_intraday]"
        by (simp add: s0_def)
      then show ?thesis by blast
    qed
    then have loop: "\<exists>s1 clamp. for_tickers e cfg' (tickers cfg) (snd res) =
          for_tickers e cfg' (tickers cfg) s1 \<and>
        trace s1 = trace s @ Mkdir (out_dir cfg) # clamp \<and>
        clamp \<in> {[], [Log warn_1m], [Log warn_intraday]}"
      by blast
    have frame: "tickers cfg' = tickers cfg \<and> interval cfg' = interval cfg \<and>
       include_actions cfg' = include_actions cfg \<and> auto_adjust cfg' = auto_adjust cfg \<and>
       out_dir cfg' = out_dir cfg \<and> start cfg' = start cfg \<and> end' cfg' = end' cfg"
      by (simp add: cfg'_def)
    show ?thesis
      unfolding run prod.case outcome.case using frame pair loop by (intro conjI) blast+
  qed
qed

subsection \<open>The pipeline: the default period\<close>

text \<open>
  C9. When the mode of the configuration the loop runs with is \<^verbatim>\<open>period\<close> and its
  period is \<^verbatim>\<open>None\<close> or the empty string, the client is called with the period
  \<^verbatim>\<open>1mo\<close> for every entry that is not blank, and a file written for that entry has
  the tag \<^verbatim>\<open>1mo\<close> in its name.
\<close>

theorem absent_period_defaults_to_1mo:
  assumes m: "mode cfg = lit ''period''"
    and p: "period cfg = None \<or> period cfg = Some []"
    and nonblank: "strip t \<noteq> []"
  shows "\<exists>rest.
           trace (process_ticker e cfg t s) =
             trace s @
             [Log (msg_fetching (strip t) cfg),
              History (HistoryPeriod (strip t) (lit ''1mo'') (interval cfg) (include_actions cfg)
                         (auto_adjust cfg))] @ rest \<and>
           ((\<exists>x. rest = [Log (msg_error_fetching (strip t) x)]) \<or>
            rest = [Log (msg_no_data (strip t))] \<or>
            (\<exists>df l. rest =
               [ToCsv (joinpath e (out_dir cfg) (file_name (strip t) (interval cfg) (lit ''1mo''))) df,
                Log l]))"
proof -
  let ?req = "HistoryPeriod (strip t) (lit ''1mo'') (interval cfg) (include_actions cfg)
                (auto_adjust cfg)"
  note call = history_call_period_default [OF m p, of "strip t"]
  obtain r w where f: "history e ?req (world s) = (r, w)"
    by (cases "history e ?req (world s)")
  show ?thesis
  proof (cases r)
    case (Raises x)
    with f show ?thesis using process_ticker_raises [OF nonblank call, of e s x w] by auto
  next
    case (Returns d)
    show ?thesis
    proof (cases d)
      case None
      with f Returns show ?thesis using process_ticker_none [OF nonblank call, of e s w] by simp
    next
      case (Some df)
      show ?thesis
      proof (cases "empty e df")
        case True
        with f Returns Some show ?thesis
          using process_ticker_empty [OF nonblank call, of e s df w] by simp
      next
        case False
        obtain r' w' where c: "to_csv e (joinpath e (out_dir cfg)
            (file_name (strip t) (interval cfg) (lit ''1mo''))) (csv_friendly e df) w = (r', w')"
          by (cases "to_csv e (joinpath e (out_dir cfg)
            (file_name (strip t) (interval cfg) (lit ''1mo''))) (csv_friendly e df) w")
        from f Returns Some have f': "history e ?req (world s) = (Returns (Some df), w)" by simp
        from process_ticker_write [OF nonblank call f' False refl c]
        show ?thesis by simp
      qed
    qed
  qed
qed

theorem absent_period_defaults_to_1mo_witness:
  "mode (demo_cfg\<lparr>mode := lit ''period''\<rparr>) = lit ''period'' \<and>
   (period (demo_cfg\<lparr>mode := lit ''period''\<rparr>) = None \<or>
    period (demo_cfg\<lparr>mode := lit ''period''\<rparr>) = Some []) \<and>
   strip (lit ''BBCA.JK'') \<noteq> [] \<and>
   (\<exists>rest.
      trace (process_ticker demo_env (demo_cfg\<lparr>mode := lit ''period''\<rparr>) (lit ''BBCA.JK'')
               demo_state) =
        trace demo_state @
        [Log (msg_fetching (strip (lit ''BBCA.JK'')) (demo_cfg\<lparr>mode := lit ''period''\<rparr>)),
         History (HistoryPeriod (strip (lit ''BBCA.JK'')) (lit ''1mo'') (lit ''1d'') False True)] @
        rest \<and>
      ((\<exists>x. rest = [Log (msg_error_fetching (strip (lit ''BBCA.JK'')) x)]) \<or>
       rest = [Log (msg_no_data (strip (lit ''BBCA.JK'')))] \<or>
       (\<exists>df l. rest =
          [ToCsv (joinpath demo_env (lit ''csv'')
                    (file_name (strip (lit ''BBCA.JK'')) (lit ''1d'') (lit ''1mo''))) df,
           Log l])))"
proof -
  let ?cfg = "demo_cfg\<lparr>mode := lit ''period''\<rparr>"
  have h1: "mode ?cfg = lit ''period''" by simp
  have h2: "period ?cfg = None \<or> period ?cfg = Some []" by (simp add: demo_cfg_def)
  have h3: "strip (lit ''BBCA.JK'') \<noteq> []" by (simp add: demo)
  have f: "interval ?cfg = lit ''1d''" "include_actions ?cfg = False" "auto_adjust ?cfg = True"
    "out_dir ?cfg = lit ''csv''"
    by (simp_all add: demo_cfg_def)
  from absent_period_defaults_to_1mo [OF h1 h2 h3, of demo_env demo_state]
  show ?thesis unfolding f by (intro conjI h1 h2 h3)
qed

end
